theory Spec2Isabelle
  imports Complex_Main
begin

section \<open>JavaScript numbers\<close>

text \<open>
  \<^verbatim>\<open>script.js\<close> holds two copies of the class \<^verbatim>\<open>AudioEmotionAnalyzer\<close>. The model
  follows the second one, which analyses at most 30 seconds of the buffer; the first
  one analyses the whole buffer and computes the scores and the energy ratios the
  same way.

  The analyser computes with JavaScript numbers. A division
  in JavaScript never throws: \<^verbatim>\<open>0/0\<close> is \<^verbatim>\<open>NaN\<close> and \<^verbatim>\<open>x/0\<close> is an infinity, and
  these values then flow through every later operation. The model keeps them: a
  number is a finite real, one of the two infinities, or \<^verbatim>\<open>NaN\<close>.

  Finite values are exact reals and the arithmetic on them is exact, with one
  exception: the product \<^verbatim>\<open>duration * sampleRate\<close>, whose floor is the number of
  samples analysed, is rounded to a double as the machine rounds it, since the
  rounding decides that number (the duration of a buffer of \<open>n\<close> samples is the double
  nearest to \<open>n / sampleRate\<close>, and its exact product with the sample rate can fall
  just below \<open>n\<close>). The two zeros are identified; the only divisors of the program are array
  lengths and sums that start from \<^verbatim>\<open>+0\<close>, which are never \<^verbatim>\<open>-0\<close>, so a division by
  zero has the sign of its numerator.
\<close>

datatype number = Fin real | PInf | NInf | NaN

fun js_add :: "number \<Rightarrow> number \<Rightarrow> number" where
  "js_add NaN y = NaN"
| "js_add x NaN = NaN"
| "js_add (Fin a) (Fin b) = Fin (a + b)"
| "js_add PInf NInf = NaN"
| "js_add NInf PInf = NaN"
| "js_add PInf y = PInf"
| "js_add x PInf = PInf"
| "js_add NInf y = NInf"
| "js_add x NInf = NInf"

fun js_neg :: "number \<Rightarrow> number" where
  "js_neg (Fin a) = Fin (- a)"
| "js_neg PInf = NInf"
| "js_neg NInf = PInf"
| "js_neg NaN = NaN"

definition js_sub :: "number \<Rightarrow> number \<Rightarrow> number" where
  "js_sub x y = js_add x (js_neg y)"

fun js_mul :: "number \<Rightarrow> number \<Rightarrow> number" where
  "js_mul NaN y = NaN"
| "js_mul x NaN = NaN"
| "js_mul (Fin a) (Fin b) = Fin (a * b)"
| "js_mul (Fin a) PInf = (if a = 0 then NaN else if 0 < a then PInf else NInf)"
| "js_mul (Fin a) NInf = (if a = 0 then NaN else if 0 < a then NInf else PInf)"
| "js_mul PInf (Fin b) = (if b = 0 then NaN else if 0 < b then PInf else NInf)"
| "js_mul NInf (Fin b) = (if b = 0 then NaN else if 0 < b then NInf else PInf)"
| "js_mul PInf PInf = PInf"
| "js_mul PInf NInf = NInf"
| "js_mul NInf PInf = NInf"
| "js_mul NInf NInf = PInf"

fun js_div :: "number \<Rightarrow> number \<Rightarrow> number" where
  "js_div NaN y = NaN"
| "js_div x NaN = NaN"
| "js_div (Fin a) (Fin b) =
     (if b = 0 then (if a = 0 then NaN else if 0 < a then PInf else NInf)
      else Fin (a / b))"
| "js_div (Fin a) PInf = Fin 0"
| "js_div (Fin a) NInf = Fin 0"
| "js_div PInf (Fin b) = (if 0 \<le> b then PInf else NInf)"
| "js_div NInf (Fin b) = (if 0 \<le> b then NInf else PInf)"
| "js_div PInf PInf = NaN"
| "js_div PInf NInf = NaN"
| "js_div NInf PInf = NaN"
| "js_div NInf NInf = NaN"

text \<open>\<^verbatim>\<open>a < b\<close> and \<^verbatim>\<open>a > b\<close>: false as soon as one side is \<^verbatim>\<open>NaN\<close>.\<close>

fun js_lt :: "number \<Rightarrow> number \<Rightarrow> bool" where
  "js_lt NaN y = False"
| "js_lt x NaN = False"
| "js_lt (Fin a) (Fin b) = (a < b)"
| "js_lt x NInf = False"
| "js_lt PInf y = False"
| "js_lt NInf y = True"
| "js_lt x PInf = True"

definition js_gt :: "number \<Rightarrow> number \<Rightarrow> bool" where
  "js_gt x y = js_lt y x"

text \<open>\<^verbatim>\<open>Math.min\<close> and \<^verbatim>\<open>Math.max\<close> of two arguments: \<^verbatim>\<open>NaN\<close> if either is.\<close>

fun Math_min :: "number \<Rightarrow> number \<Rightarrow> number" where
  "Math_min NaN y = NaN"
| "Math_min x NaN = NaN"
| "Math_min (Fin a) (Fin b) = Fin (min a b)"
| "Math_min NInf y = NInf"
| "Math_min x NInf = NInf"
| "Math_min PInf y = y"
| "Math_min x PInf = x"

fun Math_max :: "number \<Rightarrow> number \<Rightarrow> number" where
  "Math_max NaN y = NaN"
| "Math_max x NaN = NaN"
| "Math_max (Fin a) (Fin b) = Fin (max a b)"
| "Math_max PInf y = PInf"
| "Math_max x PInf = PInf"
| "Math_max NInf y = y"
| "Math_max x NInf = x"

text \<open>
  \<^verbatim>\<open>Math.round\<close> rounds to the nearest integer and a tie towards \<open>+\<infinity>\<close>, which is
  \<open>\<lfloor>x + 1/2\<rfloor>\<close>, the \<^const>\<open>round\<close> of HOL.
\<close>

fun Math_round :: "number \<Rightarrow> number" where
  "Math_round (Fin a) = Fin (of_int (round a))"
| "Math_round x = x"

fun Math_floor :: "number \<Rightarrow> number" where
  "Math_floor (Fin a) = Fin (of_int \<lfloor>a\<rfloor>)"
| "Math_floor x = x"

fun Math_abs :: "number \<Rightarrow> number" where
  "Math_abs (Fin a) = Fin \<bar>a\<bar>"
| "Math_abs PInf = PInf"
| "Math_abs NInf = PInf"
| "Math_abs NaN = NaN"

fun Math_sqrt :: "number \<Rightarrow> number" where
  "Math_sqrt (Fin a) = (if a < 0 then NaN else Fin (sqrt a))"
| "Math_sqrt PInf = PInf"
| "Math_sqrt NInf = NaN"
| "Math_sqrt NaN = NaN"

text \<open>\<^verbatim>\<open>Math.pow(x, 2)\<close>, the only power the program takes.\<close>

fun Math_pow2 :: "number \<Rightarrow> number" where
  "Math_pow2 (Fin a) = Fin (a ^ 2)"
| "Math_pow2 PInf = PInf"
| "Math_pow2 NInf = PInf"
| "Math_pow2 NaN = NaN"


subsection \<open>Rounding to a double\<close>

text \<open>
  The integer nearest to a real, a tie going to the even neighbour.
\<close>

definition roundTiesToEven :: "real \<Rightarrow> int" where
  "roundTiesToEven y =
     (let f = \<lfloor>y\<rfloor> in
      if y - of_int f < 1 / 2 then f
      else if 1 / 2 < y - of_int f then f + 1
      else if even f then f else f + 1)"

text \<open>
  The IEEE 754 binary64 value of a real under the default rounding. For \<open>x\<close> with
  \<open>2 ^ e \<le> \<bar>x\<bar> < 2 ^ (e + 1)\<close> the doubles around \<open>x\<close> are the multiples of
  \<open>2 ^ (e - 52)\<close>, and the multiples of \<open>2 ^ (- 1074)\<close> in the subnormal range; \<open>x\<close>
  goes to the nearest one, a tie to the even multiple, and a result of magnitude
  \<open>2 ^ 1024\<close> or more is an infinity.
\<close>

definition double :: "real \<Rightarrow> number" where
  "double x =
     (if x = 0 then Fin 0
      else
        let e = max \<lfloor>log 2 \<bar>x\<bar>\<rfloor> (- 1022);
            q = 2 powr (of_int e - 52);
            r = q * of_int (roundTiesToEven (x / q))
        in if 2 ^ 1024 \<le> \<bar>r\<bar> then (if 0 < x then PInf else NInf) else Fin r)"

fun toDouble :: "number \<Rightarrow> number" where
  "toDouble (Fin a) = double a"
| "toDouble x = x"


section \<open>The decoded audio and the feature record\<close>

text \<open>
  An \<^verbatim>\<open>AudioBuffer\<close> as the analyser reads it: its \<^verbatim>\<open>duration\<close>, its
  \<^verbatim>\<open>sampleRate\<close> and the samples \<^verbatim>\<open>getChannelData(0)\<close> of the first channel.
  Decoded PCM data and the attributes of a buffer are finite numbers.
\<close>

record audioBuffer =
  ab_duration :: real
  ab_sampleRate :: real
  ab_channelData :: "real list"

text \<open>The object \<^verbatim>\<open>features\<close> built by \<^verbatim>\<open>extractAudioFeatures\<close>.\<close>

record audioFeatures =
  f_duration :: number
  f_sampleRate :: number
  rms :: number
  rmsVariance :: number
  zcr :: number
  lowFreqRatio :: number
  highFreqRatio :: number
  spectralCentroid :: number


section \<open>Feature extraction\<close>

text \<open>
  \<^verbatim>\<open>channelData.slice(0, end)\<close> on a typed array: \<^verbatim>\<open>end\<close> is truncated to an
  integer (\<^verbatim>\<open>NaN\<close> to 0), a negative \<^verbatim>\<open>end\<close> counts from the end of the array,
  and the result is clamped to the array.
\<close>

fun slice0 :: "real list \<Rightarrow> number \<Rightarrow> real list" where
  "slice0 xs NaN = []"
| "slice0 xs PInf = xs"
| "slice0 xs NInf = []"
| "slice0 xs (Fin e) =
     (let len = int (length xs);
          relativeEnd = (if 0 \<le> e then \<lfloor>e\<rfloor> else \<lceil>e\<rceil>);
          final = (if relativeEnd < 0 then max (len + relativeEnd) 0 else min relativeEnd len)
      in take (nat final) xs)"

text \<open>
  The first lines of \<^verbatim>\<open>extractAudioFeatures\<close>: at most 30 seconds are analysed.
  \<^verbatim>\<open>Math.min\<close> returns one of its arguments, so the duration is not rounded; the
  product \<^verbatim>\<open>duration * sampleRate\<close> is.
\<close>

definition maxDuration :: number where
  "maxDuration = Fin 30"

definition analysisDuration :: "audioBuffer \<Rightarrow> number" where
  "analysisDuration b = Math_min (Fin (ab_duration b)) maxDuration"

definition totalSamples :: "audioBuffer \<Rightarrow> number" where
  "totalSamples b =
     Math_floor (toDouble (js_mul (analysisDuration b) (Fin (ab_sampleRate b))))"

definition analysisData :: "audioBuffer \<Rightarrow> real list" where
  "analysisData b = slice0 (ab_channelData b) (totalSamples b)"

text \<open>
  The loops run an index over the array; each is a fold of the loop body over the
  indices it visits, from the initial value of the accumulator.
\<close>

definition sumSquares :: "real list \<Rightarrow> number" where
  "sumSquares data =
     foldl (\<lambda>sum i. js_add sum (js_mul (Fin (data ! i)) (Fin (data ! i))))
       (Fin 0) [0..<length data]"

definition calculateVariance :: "real list \<Rightarrow> number \<Rightarrow> number" where
  "calculateVariance data mean =
     js_div
       (foldl (\<lambda>variance i. js_add variance (Math_pow2 (js_sub (Fin (data ! i)) mean)))
          (Fin 0) [0..<length data])
       (Fin (real (length data)))"

definition zeroCrossings :: "real list \<Rightarrow> nat" where
  "zeroCrossings data =
     foldl (\<lambda>z i. if js_lt (js_mul (Fin (data ! (i - 1))) (Fin (data ! i))) (Fin 0)
                   then z + 1 else z)
       0 [1..<length data]"

text \<open>
  \<^verbatim>\<open>calculateSpectralFeatures\<close>: the three position-based energy sums, their ratios
  to the total, and the amplitude-weighted index centroid of the first 1024 samples.
  The centroid is guarded by \<^verbatim>\<open>sum > 0\<close>; the two ratios are divided by
  \<^verbatim>\<open>totalEnergy\<close> as it is.
\<close>

definition energyBands :: "real list \<Rightarrow> number \<times> number \<times> number" where
  "energyBands data =
     (let third = length data div 3 in
      foldl (\<lambda>(lowFreqEnergy, midFreqEnergy, highFreqEnergy) i.
               let energy = Math_abs (Fin (data ! i)) in
               if i < third then (js_add lowFreqEnergy energy, midFreqEnergy, highFreqEnergy)
               else if i < 2 * third then (lowFreqEnergy, js_add midFreqEnergy energy, highFreqEnergy)
               else (lowFreqEnergy, midFreqEnergy, js_add highFreqEnergy energy))
        (Fin 0, Fin 0, Fin 0) [0..<length data])"

definition totalEnergy :: "real list \<Rightarrow> number" where
  "totalEnergy data =
     (case energyBands data of
        (lowFreqEnergy, midFreqEnergy, highFreqEnergy) \<Rightarrow>
          js_add (js_add lowFreqEnergy midFreqEnergy) highFreqEnergy)"

definition centroidSums :: "real list \<Rightarrow> number \<times> number" where
  "centroidSums data =
     (let frameSize = min (length data) 1024 in
      foldl (\<lambda>(weightedSum, sum) i.
               let magnitude = Math_abs (Fin (data ! i)) in
               (js_add weightedSum (js_mul (Fin (real i)) magnitude), js_add sum magnitude))
        (Fin 0, Fin 0) [0..<frameSize])"

record spectralFeatures =
  sf_lowFreqRatio :: number
  sf_highFreqRatio :: number
  sf_spectralCentroid :: number

definition calculateSpectralFeatures :: "real list \<Rightarrow> spectralFeatures" where
  "calculateSpectralFeatures data =
     (case energyBands data of
        (lowFreqEnergy, midFreqEnergy, highFreqEnergy) \<Rightarrow>
          (case centroidSums data of
             (weightedSum, magnitudeSum) \<Rightarrow>
               \<lparr> sf_lowFreqRatio = js_div lowFreqEnergy (totalEnergy data),
                 sf_highFreqRatio = js_div highFreqEnergy (totalEnergy data),
                 sf_spectralCentroid =
                   (if js_gt magnitudeSum (Fin 0) then js_div weightedSum magnitudeSum else Fin 0) \<rparr>))"

definition extractAudioFeatures :: "audioBuffer \<Rightarrow> audioFeatures" where
  "extractAudioFeatures b =
     (let data = analysisData b;
          rms' = Math_sqrt (js_div (sumSquares data) (Fin (real (length data))));
          spectral = calculateSpectralFeatures data
      in \<lparr> f_duration = analysisDuration b,
           f_sampleRate = Fin (ab_sampleRate b),
           rms = rms',
           rmsVariance = calculateVariance data rms',
           zcr = js_div (Fin (real (zeroCrossings data))) (Fin (real (length data))),
           lowFreqRatio = sf_lowFreqRatio spectral,
           highFreqRatio = sf_highFreqRatio spectral,
           spectralCentroid = sf_spectralCentroid spectral \<rparr>)"

text \<open>
  The outcome of a call of \<^verbatim>\<open>extractAudioFeatures\<close> on an \<^verbatim>\<open>AudioBuffer\<close> object: a
  thrown exception or the returned record. The object holds one sample array per
  channel, and \<^verbatim>\<open>getChannelData(channel)\<close> throws an \<^verbatim>\<open>IndexSizeError\<close> when the buffer
  has no such channel. It is the one call of the method that can throw: the method
  has no \<^verbatim>\<open>throw\<close> and no test of the length, it reads the array inside its bounds
  only, and its divisions yield \<^verbatim>\<open>NaN\<close> or an infinity instead of failing.
\<close>

record webAudioBuffer =
  wab_duration :: real
  wab_sampleRate :: real
  wab_channels :: "real list list"

datatype error = IndexSizeError

definition getChannelData :: "webAudioBuffer \<Rightarrow> nat \<Rightarrow> error + real list" where
  "getChannelData ab channel =
     (if channel < length (wab_channels ab) then Inr (wab_channels ab ! channel)
      else Inl IndexSizeError)"

definition extractOutcome :: "webAudioBuffer \<Rightarrow> error + audioFeatures" where
  "extractOutcome ab =
     (case getChannelData ab 0 of
        Inl e \<Rightarrow> Inl e
      | Inr channelData \<Rightarrow>
          Inr (extractAudioFeatures
                 \<lparr> ab_duration = wab_duration ab,
                   ab_sampleRate = wab_sampleRate ab,
                   ab_channelData = channelData \<rparr>))"


section \<open>Emotion scores\<close>

record emotionScores =
  calm :: number
  tense :: number
  angry :: number
  excited :: number

record featureSummary =
  volume :: number
  variability :: number
  zeroCrossing :: number

record emotionResult =
  emotions :: emotionScores
  conflictRisk :: number
  r_duration :: number
  timestamp :: string
  r_features :: featureSummary

text \<open>The four scores before normalisation, each clamped on one side.\<close>

definition rawScores :: "audioFeatures \<Rightarrow> emotionScores" where
  "rawScores f =
     \<lparr> calm = Math_max (Fin 0)
                (js_sub (js_sub (Fin 100) (js_mul (rmsVariance f) (Fin 1000)))
                   (js_mul (zcr f) (Fin 500))),
       tense = Math_min (Fin 100)
                 (js_add (js_mul (zcr f) (Fin 800)) (js_mul (rmsVariance f) (Fin 600))),
       angry = Math_min (Fin 100)
                 (js_add (js_mul (spectralCentroid f) (Fin 50)) (js_mul (highFreqRatio f) (Fin 200))),
       excited = Math_min (Fin 100) (js_mul (js_add (rmsVariance f) (zcr f)) (Fin 400)) \<rparr>"

text \<open>
  \<^verbatim>\<open>Object.values(emotionScores).reduce((sum, score) => sum + score, 0)\<close>, the values
  in the order of the keys.
\<close>

definition scoreTotal :: "emotionScores \<Rightarrow> number" where
  "scoreTotal s = foldl js_add (Fin 0) [calm s, tense s, angry s, excited s]"

definition normalizeScore :: "number \<Rightarrow> number \<Rightarrow> number" where
  "normalizeScore total' score = Math_round (js_mul (js_div score total') (Fin 100))"

definition normalizeScores :: "emotionScores \<Rightarrow> emotionScores" where
  "normalizeScores s =
     (let total' = scoreTotal s in
      \<lparr> calm = normalizeScore total' (calm s),
        tense = normalizeScore total' (tense s),
        angry = normalizeScore total' (angry s),
        excited = normalizeScore total' (excited s) \<rparr>)"

text \<open>
  \<^verbatim>\<open>calculateEmotion\<close>. The time stamp is \<^verbatim>\<open>new Date().toLocaleString('zh-CN')\<close>:
  the reading of the clock is a parameter of the model. Neither this method nor
  \<^verbatim>\<open>extractAudioFeatures\<close> reads or writes a field of the analyser object.
\<close>

definition calculateEmotion :: "string \<Rightarrow> audioFeatures \<Rightarrow> number \<Rightarrow> emotionResult" where
  "calculateEmotion now f duration =
     (let emotionScores = normalizeScores (rawScores f);
          conflictRisk' =
            Math_min (Fin 100)
              (js_add
                 (js_add (js_mul (tense emotionScores) (Fin (4 / 10)))
                    (js_mul (angry emotionScores) (Fin (6 / 10))))
                 (js_mul (excited emotionScores) (Fin (2 / 10))))
      in \<lparr> emotions = emotionScores,
           conflictRisk = Math_round conflictRisk',
           r_duration = js_div (Math_round (js_mul duration (Fin 100))) (Fin 100),
           timestamp = now,
           r_features =
             \<lparr> volume = Math_round (js_mul (rms f) (Fin 1000)),
               variability = Math_round (js_mul (rmsVariance f) (Fin 1000)),
               zeroCrossing = Math_round (js_mul (zcr f) (Fin 100)) \<rparr> \<rparr>)"

text \<open>
  The two calls of \<^verbatim>\<open>analyzeAudioFile\<close> once the file is decoded: the features of
  the buffer, then the scores, with the whole duration of the buffer.
\<close>

definition analyzeAudioBuffer :: "string \<Rightarrow> audioBuffer \<Rightarrow> emotionResult" where
  "analyzeAudioBuffer now b =
     calculateEmotion now (extractAudioFeatures b) (Fin (ab_duration b))"

section \<open>Notions used in the statements and proofs\<close>

text \<open>A number is finite and lies between two bounds.\<close>

fun inRange :: "real \<Rightarrow> real \<Rightarrow> number \<Rightarrow> bool" where
  "inRange lo hi (Fin a) = (lo \<le> a \<and> a \<le> hi)"
| "inRange lo hi x = False"

text \<open>
  The contribution of index \<open>i\<close> to each of the three energy sums of
  \<^const>\<open>energyBands\<close>: the branch of the loop body taken at \<open>i\<close> adds \<open>\<bar>data ! i\<bar>\<close> to
  one sum and nothing to the other two.
\<close>

definition lowPart :: "real list \<Rightarrow> nat \<Rightarrow> real" where
  "lowPart data i = (if i < length data div 3 then \<bar>data ! i\<bar> else 0)"

definition midPart :: "real list \<Rightarrow> nat \<Rightarrow> real" where
  "midPart data i =
     (if i < length data div 3 then 0
      else if i < 2 * (length data div 3) then \<bar>data ! i\<bar> else 0)"

definition highPart :: "real list \<Rightarrow> nat \<Rightarrow> real" where
  "highPart data i =
     (if i < length data div 3 then 0
      else if i < 2 * (length data div 3) then 0 else \<bar>data ! i\<bar>)"


section \<open>Properties of the rounding\<close>

text \<open>
  A non-negative integer below \<open>2 ^ 53\<close> is a double, and the double of a non-negative
  real is not negative.
\<close>

lemma roundTiesToEven_of_int: "roundTiesToEven (of_int k) = k"
  by (simp add: roundTiesToEven_def)

lemma roundTiesToEven_nonneg: "0 \<le> y \<Longrightarrow> 0 \<le> roundTiesToEven y"
  by (auto simp: roundTiesToEven_def Let_def)

lemma double_of_int:
  assumes "0 \<le> k" "k < 2 ^ 53"
  shows "double (of_int k) = Fin (of_int k)"
proof (cases "k = 0")
  case True
  then show ?thesis by (simp add: double_def)
next
  case False
  with assms have k: "1 \<le> k" by simp
  define e where "e = \<lfloor>log 2 (real_of_int k)\<rfloor>"
  have "0 \<le> log 2 (real_of_int k)" using k by simp
  then have e0: "0 \<le> e" by (simp add: e_def)
  have k53: "real_of_int k < 2 ^ 53"
    using assms(2) by (metis of_int_less_numeral_power_cancel_iff)
  then have "real_of_int k < 2 powr 53" by simp
  then have "log 2 (real_of_int k) < 53" using k by (subst log_less_iff) simp_all
  then have "e < 53" unfolding e_def by linarith
  then have e52: "e \<le> 52" by simp
  define n where "n = nat (52 - e)"
  have q: "(2::real) powr (of_int (max e (- 1022)) - 52) = 1 / 2 ^ n"
  proof -
    have "max e (- 1022) = e" using e0 by simp
    moreover have "real_of_int e - 52 = - real n" using e52 by (simp add: n_def)
    ultimately show ?thesis by (simp add: powr_minus powr_realpow divide_simps)
  qed
  have "real_of_int k / (1 / 2 ^ n) = of_int (k * 2 ^ n)" by simp
  then have r: "roundTiesToEven (real_of_int k / (1 / 2 ^ n)) = k * 2 ^ n"
    by (simp only: roundTiesToEven_of_int)
  have small: "\<not> (2 ^ 1024 \<le> \<bar>real_of_int k\<bar>)"
  proof -
    note k53
    also have "(2 ^ 53 :: real) \<le> 2 ^ 1024" by (rule power_increasing) simp_all
    finally show ?thesis using k by simp
  qed
  have "1 / 2 ^ n * real_of_int (k * 2 ^ n) = real_of_int k" by simp
  with small False q r show ?thesis
    unfolding double_def Let_def e_def [symmetric]
    using k by (simp add: e_def [symmetric])
qed

lemma double_numeral: "numeral n < (2::int) ^ 53 \<Longrightarrow> double (numeral n) = Fin (numeral n)"
  using double_of_int [of "numeral n"] by simp

lemma double_0: "double 0 = Fin 0"
  by (simp add: double_def)

lemma double_1: "double 1 = Fin 1"
  using double_of_int [of 1] by simp

lemmas double_simps = double_0 double_1 double_numeral

lemma double_nonneg:
  assumes "0 \<le> x"
  shows "double x = PInf \<or> (\<exists>r. double x = Fin r \<and> 0 \<le> r)"
proof (cases "x = 0")
  case True
  then show ?thesis by (simp add: double_def)
next
  case False
  with assms have x: "0 < x" by simp
  define q where "q = (2::real) powr (of_int (max \<lfloor>log 2 \<bar>x\<bar>\<rfloor> (- 1022)) - 52)"
  have q: "0 < q" by (simp add: q_def)
  with x have "0 \<le> x / q" by simp
  then have "0 \<le> roundTiesToEven (x / q)" by (rule roundTiesToEven_nonneg)
  with q have "0 \<le> q * of_int (roundTiesToEven (x / q))" by simp
  with x False show ?thesis
    unfolding double_def Let_def q_def [symmetric] by simp
qed

text \<open>
  The value of a double inside a known binade, and the product that a buffer of 9
  samples at 8000 Hz gives: its duration is the double nearest to \<open>9 / 8000\<close>, the exact
  product is below 9, and the rounded product is 9.
\<close>

lemma double_binade:
  assumes "0 < x" "2 powr of_int e \<le> x" "x < 2 powr (of_int e + 1)" "- 1022 \<le> e"
    and "roundTiesToEven (x / 2 powr (of_int e - 52)) = m"
    and "\<bar>2 powr (of_int e - 52) * real_of_int m\<bar> < 2 ^ 1024"
  shows "double x = Fin (2 powr (of_int e - 52) * of_int m)"
proof -
  have "\<lfloor>log 2 x\<rfloor> = e"
    using assms(1-3) by (subst floor_log_eq_powr_iff) simp_all
  with assms show ?thesis
    by (simp add: double_def Let_def)
qed

lemma double_nine_frames:
  "5188146770730811 / 2 ^ 62 * 8000 < (9::real)"
  "double (5188146770730811 / 2 ^ 62 * 8000) = Fin 9"
proof -
  show "5188146770730811 / 2 ^ 62 * 8000 < (9::real)" by simp
  have p: "(2::real) powr - 49 = 1 / 2 ^ 49"
    using powr_realpow [of 2 49] by (simp add: powr_minus divide_simps)
  have r: "roundTiesToEven (5188146770730811 / 2 ^ 62 * 8000 / 2 powr (of_int 3 - 52))
             = 5066549580791808"
    by (simp add: p roundTiesToEven_def Let_def)
  have "double (5188146770730811 / 2 ^ 62 * 8000)
          = Fin (2 powr (of_int 3 - 52) * of_int 5066549580791808)"
    by (rule double_binade [OF _ _ _ _ r]) (simp_all add: p)
  then show "double (5188146770730811 / 2 ^ 62 * 8000) = Fin 9" by (simp add: p)
qed


section \<open>The loops in closed form\<close>

text \<open>
  A loop that adds a finite term at every index computes a finite sum, and a loop that
  counts computes the length of a filter.
\<close>

lemma map_nth_fun: "map (\<lambda>i. g (xs ! i)) [0..<length xs] = map g xs"
proof -
  have "map (\<lambda>i. g (xs ! i)) [0..<length xs] = map g (map (nth xs) [0..<length xs])"
    by simp
  then show ?thesis by (simp only: map_nth)
qed

lemma foldl_add_Fin:
  "foldl (\<lambda>s i. js_add s (Fin (g i))) (Fin a) ks = Fin (a + sum_list (map g ks))"
  by (induction ks arbitrary: a) (simp_all add: add.assoc)

lemma sumSquares_Fin: "sumSquares data = Fin (\<Sum>x\<leftarrow>data. x * x)"
proof -
  have "sumSquares data = Fin (0 + sum_list (map (\<lambda>i. data ! i * data ! i) [0..<length data]))"
    unfolding sumSquares_def js_mul.simps by (rule foldl_add_Fin)
  also have "map (\<lambda>i. data ! i * data ! i) [0..<length data] = map (\<lambda>x. x * x) data"
    by (rule map_nth_fun)
  finally show ?thesis by simp
qed

lemma calculateVariance_Fin:
  "calculateVariance data (Fin m) =
     js_div (Fin (\<Sum>x\<leftarrow>data. (x - m) ^ 2)) (Fin (real (length data)))"
proof -
  have "foldl (\<lambda>variance i. js_add variance (Math_pow2 (js_sub (Fin (data ! i)) (Fin m))))
          (Fin 0) [0..<length data]
        = Fin (0 + sum_list (map (\<lambda>i. (data ! i - m) ^ 2) [0..<length data]))"
    unfolding js_sub_def js_neg.simps js_add.simps Math_pow2.simps
    by (simp only: foldl_add_Fin flip: diff_conv_add_uminus)
  also have "map (\<lambda>i. (data ! i - m) ^ 2) [0..<length data] = map (\<lambda>x. (x - m) ^ 2) data"
    by (rule map_nth_fun)
  finally show ?thesis by (simp add: calculateVariance_def)
qed

lemma foldl_count_le:
  "foldl (\<lambda>z i. if P i then z + 1 else z) (z0::nat) ks \<le> z0 + length ks"
proof (induction ks arbitrary: z0)
  case Nil
  show ?case by simp
next
  case (Cons k ks)
  show ?case using Cons.IH [of "z0 + 1"] Cons.IH [of z0] by simp
qed

lemma zeroCrossings_le: "zeroCrossings data \<le> length data - 1"
  unfolding zeroCrossings_def using foldl_count_le [of _ 0 "[1..<length data]"] by simp

text \<open>The three energy sums are finite, not negative, and add up to \<open>\<Sum> \<bar>x\<bar>\<close>.\<close>

lemma energy_fold:
  "foldl (\<lambda>(lowFreqEnergy, midFreqEnergy, highFreqEnergy) i.
               let energy = Math_abs (Fin (data ! i)) in
               if i < length data div 3 then (js_add lowFreqEnergy energy, midFreqEnergy, highFreqEnergy)
               else if i < 2 * (length data div 3) then (lowFreqEnergy, js_add midFreqEnergy energy, highFreqEnergy)
               else (lowFreqEnergy, midFreqEnergy, js_add highFreqEnergy energy))
        (Fin l, Fin m, Fin h) ks
   = (Fin (l + sum_list (map (lowPart data) ks)),
      Fin (m + sum_list (map (midPart data) ks)),
      Fin (h + sum_list (map (highPart data) ks)))"
  by (induction ks arbitrary: l m h) (simp_all add: lowPart_def midPart_def highPart_def Let_def add.assoc)

lemma energyBands_Fin:
  "energyBands data =
     (Fin (sum_list (map (lowPart data) [0..<length data])),
      Fin (sum_list (map (midPart data) [0..<length data])),
      Fin (sum_list (map (highPart data) [0..<length data])))"
  using energy_fold [of data 0 0 0 "[0..<length data]"] by (simp add: energyBands_def Let_def)

lemma parts_nonneg:
  "0 \<le> sum_list (map (lowPart data) ks)"
  "0 \<le> sum_list (map (midPart data) ks)"
  "0 \<le> sum_list (map (highPart data) ks)"
  by (rule sum_list_nonneg, auto simp: lowPart_def midPart_def highPart_def)+

lemma parts_total:
  "sum_list (map (lowPart data) [0..<length data]) + sum_list (map (midPart data) [0..<length data])
     + sum_list (map (highPart data) [0..<length data]) = (\<Sum>x\<leftarrow>data. \<bar>x\<bar>)"
proof -
  have "sum_list (map (lowPart data) ks) + sum_list (map (midPart data) ks)
     + sum_list (map (highPart data) ks) = sum_list (map (\<lambda>i. \<bar>data ! i\<bar>) ks)" for ks
    by (induction ks) (simp_all add: lowPart_def midPart_def highPart_def)
  then show ?thesis by (simp only: map_nth_fun)
qed

lemma totalEnergy_Fin: "totalEnergy data = Fin (\<Sum>x\<leftarrow>data. \<bar>x\<bar>)"
  by (simp add: totalEnergy_def energyBands_Fin parts_total)

lemma sum_abs_pos: "\<exists>x\<in>set data. x \<noteq> 0 \<Longrightarrow> 0 < (\<Sum>x\<leftarrow>data. \<bar>x::real\<bar>)"
proof (induction data)
  case Nil
  then show ?case by simp
next
  case (Cons a data)
  have nn: "0 \<le> (\<Sum>x\<leftarrow>data. \<bar>x\<bar>)" by (rule sum_list_nonneg) auto
  show ?case
  proof (cases "a = 0")
    case True
    with Cons show ?thesis by simp
  next
    case False
    with nn show ?thesis by simp
  qed
qed

lemma sum_abs_zero: "\<forall>x\<in>set data. x = 0 \<Longrightarrow> (\<Sum>x\<leftarrow>data. \<bar>x::real\<bar>) = 0"
  by (induction data) simp_all

lemma centroid_fold:
  "foldl (\<lambda>(weightedSum, sum) i.
               let magnitude = Math_abs (Fin (data ! i)) in
               (js_add weightedSum (js_mul (Fin (real i)) magnitude), js_add sum magnitude))
        (Fin w, Fin s) ks
   = (Fin (w + sum_list (map (\<lambda>i. real i * \<bar>data ! i\<bar>) ks)),
      Fin (s + sum_list (map (\<lambda>i. \<bar>data ! i\<bar>) ks)))"
  by (induction ks arbitrary: w s) (simp_all add: Let_def add.assoc)

lemma centroidSums_Fin:
  "centroidSums data =
     (Fin (sum_list (map (\<lambda>i. real i * \<bar>data ! i\<bar>) [0..<min (length data) 1024])),
      Fin (sum_list (map (\<lambda>i. \<bar>data ! i\<bar>) [0..<min (length data) 1024])))"
  using centroid_fold [of data 0 0 "[0..<min (length data) 1024]"]
  by (simp add: centroidSums_def Let_def)

text \<open>The window is a prefix of the channel data.\<close>

lemma analysisData_subset: "set (analysisData b) \<subseteq> set (ab_channelData b)"
  by (cases "totalSamples b") (auto simp: analysisData_def Let_def dest: in_set_takeD)

text \<open>The crossings are the adjacent pairs with a strictly negative product.\<close>

lemma foldl_count_filter:
  "foldl (\<lambda>z i. if P i then z + 1 else z) (z0::nat) ks = z0 + length (filter P ks)"
  by (induction ks arbitrary: z0) simp_all

lemma zip_tl_nth: "zip data (tl data) = map (\<lambda>i. (data ! (i - 1), data ! i)) [1..<length data]"
proof (rule nth_equalityI)
  show "length (zip data (tl data)) = length (map (\<lambda>i. (data ! (i - 1), data ! i)) [1..<length data])"
    by simp
next
  fix j
  assume "j < length (zip data (tl data))"
  then have j: "j < length data - 1" by simp
  then have "zip data (tl data) ! j = (data ! j, data ! Suc j)"
    by (simp add: nth_tl)
  moreover from j have "map (\<lambda>i. (data ! (i - 1), data ! i)) [1..<length data] ! j = (data ! j, data ! Suc j)"
    by simp
  ultimately show "zip data (tl data) ! j = map (\<lambda>i. (data ! (i - 1), data ! i)) [1..<length data] ! j"
    by simp
qed

lemma zeroCrossings_pairs:
  "zeroCrossings data = length (filter (\<lambda>(x, y). x * y < 0) (zip data (tl data)))"
proof -
  have "zeroCrossings data = length (filter (\<lambda>i. data ! (i - 1) * data ! i < 0) [1..<length data])"
    unfolding zeroCrossings_def js_mul.simps js_lt.simps by (simp only: foldl_count_filter)
  also have "\<dots> = length (filter (\<lambda>(x, y). x * y < 0) (map (\<lambda>i. (data ! (i - 1), data ! i)) [1..<length data]))"
    by (simp add: filter_map comp_def)
  finally show ?thesis by (simp only: zip_tl_nth)
qed

text \<open>
  A buffer of 9 samples at 8000 Hz: its duration is the double nearest to \<open>9 / 8000\<close>,
  and all 9 samples are analysed.
\<close>

lemma nine_frames_window:
  "totalSamples \<lparr>ab_duration = 5188146770730811 / 2 ^ 62, ab_sampleRate = 8000,
                  ab_channelData = data\<rparr> = Fin 9"
proof -
  have "min (5188146770730811 / 2 ^ 62) (30::real) = 5188146770730811 / 2 ^ 62" by simp
  then show ?thesis
    by (simp only: totalSamples_def analysisDuration_def maxDuration_def audioBuffer.simps
        Math_min.simps js_mul.simps toDouble.simps double_nine_frames Math_floor.simps)
      simp
qed

text \<open>
  For a duration and a sample rate that are not negative the window is the prefix
  whose length is the smaller of the length of the data and \<^const>\<open>totalSamples\<close>.
\<close>

lemma analysisData_window:
  assumes "0 \<le> ab_duration b" "0 \<le> ab_sampleRate b"
  shows "\<exists>n. Math_min (Fin (real (length (ab_channelData b)))) (totalSamples b) = Fin (real n)
           \<and> n \<le> length (ab_channelData b)
           \<and> analysisData b = take n (ab_channelData b)"
proof -
  let ?p = "min (ab_duration b) 30 * ab_sampleRate b"
  let ?len = "length (ab_channelData b)"
  have p: "0 \<le> ?p" using assms by simp
  have t: "totalSamples b = Math_floor (double ?p)"
    by (simp add: totalSamples_def analysisDuration_def maxDuration_def)
  from double_nonneg [OF p] show ?thesis
  proof
    assume "double ?p = PInf"
    with t have "totalSamples b = PInf" by simp
    then have "Math_min (Fin (real ?len)) (totalSamples b) = Fin (real ?len)
        \<and> ?len \<le> ?len \<and> analysisData b = take ?len (ab_channelData b)"
      by (simp add: analysisData_def)
    then show ?thesis by blast
  next
    assume "\<exists>r. double ?p = Fin r \<and> 0 \<le> r"
    then obtain r where r: "double ?p = Fin r" "0 \<le> r" by blast
    define n where "n = nat (min (int ?len) \<lfloor>r\<rfloor>)"
    from r(2) have fl: "0 \<le> \<lfloor>r\<rfloor>" by simp
    from t r(1) have ts: "totalSamples b = Fin (of_int \<lfloor>r\<rfloor>)" by simp
    have "real n = min (real ?len) (of_int \<lfloor>r\<rfloor>)"
      using fl by (simp add: n_def min_def)
    with ts have "Math_min (Fin (real ?len)) (totalSamples b) = Fin (real n)" by simp
    moreover have "n \<le> ?len" by (simp add: n_def)
    moreover have "analysisData b = take n (ab_channelData b)"
      using fl by (simp add: analysisData_def ts Let_def n_def min.commute)
    ultimately show ?thesis by blast
  qed
qed


section \<open>Finite features of a window\<close>

text \<open>
  On a non-empty window every quotient by the length is finite; on a window with a
  non-zero sample the total energy is positive and both ratios are finite.
\<close>

lemma rms_Fin:
  assumes "analysisData b \<noteq> []"
  shows "rms (extractAudioFeatures b) =
           Fin (sqrt ((\<Sum>x\<leftarrow>analysisData b. x * x) / real (length (analysisData b))))"
proof -
  have "0 \<le> (\<Sum>x\<leftarrow>analysisData b. x * x)" by (rule sum_list_nonneg) auto
  then have "\<not> (\<Sum>x\<leftarrow>analysisData b. x * x) / real (length (analysisData b)) < 0"
    by (simp add: not_less)
  with assms show ?thesis
    by (simp add: extractAudioFeatures_def Let_def sumSquares_Fin)
qed

lemma rmsVariance_Fin:
  assumes "analysisData b \<noteq> []"
  shows "\<exists>v. rmsVariance (extractAudioFeatures b) = Fin v \<and> 0 \<le> v"
proof -
  let ?d = "analysisData b"
  obtain m where m: "rms (extractAudioFeatures b) = Fin m" using rms_Fin [OF assms] by blast
  then have "Math_sqrt (js_div (sumSquares ?d) (Fin (real (length ?d)))) = Fin m"
    by (simp add: extractAudioFeatures_def Let_def)
  then have "rmsVariance (extractAudioFeatures b) = calculateVariance ?d (Fin m)"
    by (simp add: extractAudioFeatures_def Let_def)
  with assms have "rmsVariance (extractAudioFeatures b) =
      Fin ((\<Sum>x\<leftarrow>?d. (x - m) ^ 2) / real (length ?d))"
    by (simp add: calculateVariance_Fin)
  moreover have "0 \<le> (\<Sum>x\<leftarrow>?d. (x - m) ^ 2)" by (rule sum_list_nonneg) auto
  ultimately show ?thesis by simp
qed

lemma zcr_Fin:
  assumes "analysisData b \<noteq> []"
  shows "zcr (extractAudioFeatures b) =
           Fin (real (zeroCrossings (analysisData b)) / real (length (analysisData b)))"
  using assms by (simp add: extractAudioFeatures_def Let_def)

lemma zcr_less_1:
  assumes "data \<noteq> []"
  shows "real (zeroCrossings data) / real (length data) < 1"
proof -
  from assms have "0 < length data" by simp
  with zeroCrossings_le [of data] have "zeroCrossings data < length data" by linarith
  with \<open>0 < length data\<close> show ?thesis by simp
qed

lemma ratios_Fin:
  assumes "\<exists>x\<in>set data. x \<noteq> 0"
  shows "\<exists>lo hi. sf_lowFreqRatio (calculateSpectralFeatures data) = Fin lo \<and> 0 \<le> lo \<and> lo \<le> 1
           \<and> sf_highFreqRatio (calculateSpectralFeatures data) = Fin hi \<and> 0 \<le> hi \<and> hi \<le> 1"
proof -
  let ?k = "[0..<length data]"
  let ?L = "sum_list (map (lowPart data) ?k)"
  let ?M = "sum_list (map (midPart data) ?k)"
  let ?H = "sum_list (map (highPart data) ?k)"
  let ?T = "\<Sum>x\<leftarrow>data. \<bar>x\<bar>"
  have T: "0 < ?T" using assms by (rule sum_abs_pos)
  have sum: "?L + ?M + ?H = ?T" by (rule parts_total)
  have nn: "0 \<le> ?L" "0 \<le> ?M" "0 \<le> ?H" by (rule parts_nonneg)+
  have lo: "sf_lowFreqRatio (calculateSpectralFeatures data) = Fin (?L / ?T)"
    and hi: "sf_highFreqRatio (calculateSpectralFeatures data) = Fin (?H / ?T)"
    using T by (simp_all add: calculateSpectralFeatures_def energyBands_Fin totalEnergy_Fin
        split: prod.splits)
  have "?L \<le> ?T" "?H \<le> ?T" using sum nn by linarith+
  with T nn have "0 \<le> ?L / ?T" "?L / ?T \<le> 1" "0 \<le> ?H / ?T" "?H / ?T \<le> 1"
    by simp_all
  with lo hi show ?thesis by blast
qed

lemma ratios_silent:
  assumes "\<forall>x\<in>set data. x = 0"
  shows "sf_lowFreqRatio (calculateSpectralFeatures data) = NaN"
    and "sf_highFreqRatio (calculateSpectralFeatures data) = NaN"
proof -
  let ?k = "[0..<length data]"
  let ?L = "sum_list (map (lowPart data) ?k)"
  let ?M = "sum_list (map (midPart data) ?k)"
  let ?H = "sum_list (map (highPart data) ?k)"
  let ?T = "\<Sum>x\<leftarrow>data. \<bar>x\<bar>"
  have T: "?T = 0" using assms by (rule sum_abs_zero)
  have sum: "?L + ?M + ?H = ?T" by (rule parts_total)
  have nn: "0 \<le> ?L" "0 \<le> ?M" "0 \<le> ?H" by (rule parts_nonneg)+
  from T sum nn have z: "?L = 0" "?H = 0" by linarith+
  show "sf_lowFreqRatio (calculateSpectralFeatures data) = NaN"
    and "sf_highFreqRatio (calculateSpectralFeatures data) = NaN"
    using T z by (simp_all add: calculateSpectralFeatures_def energyBands_Fin totalEnergy_Fin
        split: prod.splits)
qed

lemma centroid_Fin:
  "\<exists>c. sf_spectralCentroid (calculateSpectralFeatures data) = Fin c \<and> 0 \<le> c"
proof -
  let ?k = "[0..<min (length data) 1024]"
  let ?W = "sum_list (map (\<lambda>i. real i * \<bar>data ! i\<bar>) ?k)"
  let ?S = "sum_list (map (\<lambda>i. \<bar>data ! i\<bar>) ?k)"
  have W: "0 \<le> ?W" by (rule sum_list_nonneg) auto
  have c: "sf_spectralCentroid (calculateSpectralFeatures data) = (if 0 < ?S then Fin (?W / ?S) else Fin 0)"
    by (simp add: calculateSpectralFeatures_def centroidSums_Fin js_gt_def split: prod.splits)
  show ?thesis
  proof (cases "0 < ?S")
    case True
    with W c show ?thesis by simp
  next
    case False
    with c show ?thesis by simp
  qed
qed

lemma spectral_fields:
  "lowFreqRatio (extractAudioFeatures b) = sf_lowFreqRatio (calculateSpectralFeatures (analysisData b))"
  "highFreqRatio (extractAudioFeatures b) = sf_highFreqRatio (calculateSpectralFeatures (analysisData b))"
  "spectralCentroid (extractAudioFeatures b) = sf_spectralCentroid (calculateSpectralFeatures (analysisData b))"
  by (simp_all add: extractAudioFeatures_def Let_def)


text \<open>The features of an empty window: every quotient by the length is \<^verbatim>\<open>0/0\<close>.\<close>

lemma empty_window_features:
  assumes "analysisData b = []"
  shows "rms (extractAudioFeatures b) = NaN" "rmsVariance (extractAudioFeatures b) = NaN"
    "zcr (extractAudioFeatures b) = NaN" "lowFreqRatio (extractAudioFeatures b) = NaN"
    "highFreqRatio (extractAudioFeatures b) = NaN" "spectralCentroid (extractAudioFeatures b) = Fin 0"
  using assms
  by (simp_all add: extractAudioFeatures_def Let_def sumSquares_def calculateVariance_def
      zeroCrossings_def calculateSpectralFeatures_def energyBands_def totalEnergy_def
      centroidSums_def js_gt_def)


section \<open>Scores of finite features\<close>

text \<open>
  Finite features give finite raw scores. Conversely a strictly positive total leaves
  no room for \<^verbatim>\<open>NaN\<close> or an infinity among the raw scores: the three upper-clamped
  scores are never \<open>+\<infinity>\<close>, and \<open>calm = +\<infinity>\<close> makes \<open>tense\<close> equal to \<open>-\<infinity>\<close> or \<^verbatim>\<open>NaN\<close>.
\<close>

lemma rawScores_Fin:
  assumes "rmsVariance f = Fin v" "zcr f = Fin z" "spectralCentroid f = Fin c" "highFreqRatio f = Fin h"
  shows "rawScores f =
           \<lparr> calm = Fin (max 0 (100 - v * 1000 - z * 500)),
             tense = Fin (min 100 (z * 800 + v * 600)),
             angry = Fin (min 100 (c * 50 + h * 200)),
             excited = Fin (min 100 ((v + z) * 400)) \<rparr>"
  using assms by (simp add: rawScores_def js_sub_def)

lemma Math_min_100_not_PInf: "Math_min (Fin 100) y \<noteq> PInf"
  by (cases y) simp_all

lemma Math_max_0_not_NInf: "Math_max (Fin 0) y \<noteq> NInf"
  by (cases y) simp_all

lemma calm_PInf_tense:
  "calm (rawScores f) = PInf \<Longrightarrow> tense (rawScores f) = NInf \<or> tense (rawScores f) = NaN"
  by (cases "rmsVariance f"; cases "zcr f") (simp_all add: rawScores_def js_sub_def split: if_splits)

lemma total_pos_scores_Fin:
  assumes "js_gt (scoreTotal (rawScores f)) (Fin 0)"
  shows "\<exists>c t a e. rawScores f = \<lparr>calm = Fin c, tense = Fin t, angry = Fin a, excited = Fin e\<rparr>
           \<and> 0 < c + t + a + e"
proof -
  let ?s = "rawScores f"
  have t: "tense ?s \<noteq> PInf" and a: "angry ?s \<noteq> PInf" and e: "excited ?s \<noteq> PInf"
    by (simp_all add: rawScores_def Math_min_100_not_PInf)
  have c: "calm ?s = PInf \<longrightarrow> tense ?s = NInf \<or> tense ?s = NaN"
    using calm_PInf_tense by blast
  have s: "?s = \<lparr>calm = calm ?s, tense = tense ?s, angry = angry ?s, excited = excited ?s\<rparr>"
    by simp
  from assms t a e c have
    "\<exists>c t a e. calm ?s = Fin c \<and> tense ?s = Fin t \<and> angry ?s = Fin a \<and> excited ?s = Fin e
       \<and> 0 < c + t + a + e"
    by (cases "calm ?s"; cases "tense ?s"; cases "angry ?s"; cases "excited ?s")
       (simp_all add: scoreTotal_def js_gt_def)
  with s show ?thesis by metis
qed

text \<open>Rounding: percentages of a positive total, and four terms that sum to 100.\<close>

lemma normalizeScores_Fin:
  assumes "c + t + a + e \<noteq> 0"
  shows "normalizeScores \<lparr>calm = Fin c, tense = Fin t, angry = Fin a, excited = Fin e\<rparr> =
           \<lparr> calm = Fin (of_int (round (c / (c + t + a + e) * 100))),
             tense = Fin (of_int (round (t / (c + t + a + e) * 100))),
             angry = Fin (of_int (round (a / (c + t + a + e) * 100))),
             excited = Fin (of_int (round (e / (c + t + a + e) * 100))) \<rparr>"
  using assms by (simp add: normalizeScores_def normalizeScore_def scoreTotal_def Let_def)

lemma round_percent_bounds:
  assumes "0 \<le> s" "s \<le> T" "0 < (T::real)"
  shows "0 \<le> round (s / T * 100)" "round (s / T * 100) \<le> 100"
proof -
  have "0 \<le> s / T * 100" using assms by simp
  then have "round (0::real) \<le> round (s / T * 100)" by (rule round_mono)
  then show "0 \<le> round (s / T * 100)" by simp
  have "s / T * 100 \<le> 100" using assms by (simp add: field_simps)
  then have "round (s / T * 100) \<le> round (100::real)" by (rule round_mono)
  then show "round (s / T * 100) \<le> 100" by simp
qed

lemma Math_round_min_100: "Math_round (Math_min (Fin 100) x) = Math_min (Fin 100) (Math_round x)"
proof (cases x)
  case (Fin a)
  have "round (min 100 a) = min 100 (round a)"
  proof (cases "100 \<le> a")
    case True
    then have "round (100::real) \<le> round a" by (rule round_mono)
    then have "100 \<le> round a" by simp
    with True show ?thesis by (simp add: min_def)
  next
    case False
    then have "a \<le> 100" by simp
    then have "round a \<le> round (100::real)" by (rule round_mono)
    then have "round a \<le> 100" by simp
    with False show ?thesis by (simp add: min_def)
  qed
  then have "real_of_int (round (min 100 a)) = min 100 (real_of_int (round a))"
    by (simp add: min_def)
  with Fin show ?thesis by simp
qed simp_all

lemma round_sum4:
  fixes w x y z :: real
  assumes "w + x + y + z = 100"
  shows "98 \<le> round w + round x + round y + round z" "round w + round x + round y + round z \<le> 102"
proof -
  have "\<bar>of_int (round w) - w\<bar> \<le> 1 / 2" "\<bar>of_int (round x) - x\<bar> \<le> 1 / 2"
       "\<bar>of_int (round y) - y\<bar> \<le> 1 / 2" "\<bar>of_int (round z) - z\<bar> \<le> 1 / 2"
    by (rule of_int_round_abs_le)+
  with assms have "98 \<le> real_of_int (round w + round x + round y + round z)"
    and "real_of_int (round w + round x + round y + round z) \<le> 102"
    unfolding of_int_add by linarith+
  then show "98 \<le> round w + round x + round y + round z"
    and "round w + round x + round y + round z \<le> 102"
    by linarith+
qed

lemma total_pos_nonneg:
  fixes v z c h :: real
  assumes "0 \<le> v" "0 \<le> z" "0 \<le> c" "0 \<le> h"
  shows "0 < max 0 (100 - v * 1000 - z * 500) + min 100 (z * 800 + v * 600)
             + min 100 (c * 50 + h * 200) + min 100 ((v + z) * 400)"
  using assms by (simp add: max_def min_def)

lemma emotion_bounds:
  assumes f: "rmsVariance f = Fin v" "zcr f = Fin z" "spectralCentroid f = Fin c" "highFreqRatio f = Fin h"
    and nn: "0 \<le> v" "0 \<le> z" "0 \<le> c" "0 \<le> h"
  shows "inRange 0 100 (calm (emotions (calculateEmotion now f d)))"
    and "inRange 0 100 (tense (emotions (calculateEmotion now f d)))"
    and "inRange 0 100 (angry (emotions (calculateEmotion now f d)))"
    and "inRange 0 100 (excited (emotions (calculateEmotion now f d)))"
    and "inRange 0 100 (conflictRisk (calculateEmotion now f d))"
proof -
  define C where "C = max 0 (100 - v * 1000 - z * 500)"
  define T where "T = min 100 (z * 800 + v * 600)"
  define A where "A = min 100 (c * 50 + h * 200)"
  define E where "E = min 100 ((v + z) * 400)"
  define S where "S = C + T + A + E"
  have raw: "rawScores f = \<lparr>calm = Fin C, tense = Fin T, angry = Fin A, excited = Fin E\<rparr>"
    unfolding C_def T_def A_def E_def using f by (rule rawScores_Fin)
  have S: "0 < S" unfolding S_def C_def T_def A_def E_def using nn by (rule total_pos_nonneg)
  have lo: "0 \<le> C" "0 \<le> T" "0 \<le> A" "0 \<le> E"
    using nn by (simp_all add: C_def T_def A_def E_def)
  then have hi: "C \<le> S" "T \<le> S" "A \<le> S" "E \<le> S" by (simp_all add: S_def)
  have norm: "normalizeScores (rawScores f) =
      \<lparr> calm = Fin (of_int (round (C / S * 100))), tense = Fin (of_int (round (T / S * 100))),
        angry = Fin (of_int (round (A / S * 100))), excited = Fin (of_int (round (E / S * 100))) \<rparr>"
    unfolding raw S_def using S by (intro normalizeScores_Fin) (simp add: S_def)
  have em: "emotions (calculateEmotion now f d) = normalizeScores (rawScores f)"
    by (simp add: calculateEmotion_def Let_def)
  note b = round_percent_bounds [OF lo(1) hi(1) S] round_percent_bounds [OF lo(2) hi(2) S]
    round_percent_bounds [OF lo(3) hi(3) S] round_percent_bounds [OF lo(4) hi(4) S]
  show "inRange 0 100 (calm (emotions (calculateEmotion now f d)))"
    and "inRange 0 100 (tense (emotions (calculateEmotion now f d)))"
    and "inRange 0 100 (angry (emotions (calculateEmotion now f d)))"
    and "inRange 0 100 (excited (emotions (calculateEmotion now f d)))"
    using b by (simp_all add: em norm)
  define X where "X = real_of_int (round (T / S * 100)) * (4 / 10)
      + real_of_int (round (A / S * 100)) * (6 / 10) + real_of_int (round (E / S * 100)) * (2 / 10)"
  have X: "0 \<le> X" unfolding X_def using b by simp
  have risk: "conflictRisk (calculateEmotion now f d) = Fin (of_int (round (min 100 X)))"
    by (simp add: calculateEmotion_def Let_def norm X_def)
  from X have "round (0::real) \<le> round (min 100 X)" by (intro round_mono) simp
  moreover have "round (min 100 X) \<le> round (100::real)" by (intro round_mono) simp
  ultimately show "inRange 0 100 (conflictRisk (calculateEmotion now f d))"
    by (simp add: risk)
qed


section \<open>Scores of a window with and without energy\<close>

text \<open>
  When the analysis window has a sample different from 0 the features are finite and
  not negative, and the percentages, the conflict risk, \<open>zcr\<close> and the two energy ratios
  lie within their bounds.
\<close>

lemma bounds_nonsilent_window:
  assumes "\<exists>x\<in>set (analysisData b). x \<noteq> 0"
  shows "inRange 0 100 (calm (emotions (analyzeAudioBuffer now b)))
       \<and> inRange 0 100 (tense (emotions (analyzeAudioBuffer now b)))
       \<and> inRange 0 100 (angry (emotions (analyzeAudioBuffer now b)))
       \<and> inRange 0 100 (excited (emotions (analyzeAudioBuffer now b)))
       \<and> inRange 0 100 (conflictRisk (analyzeAudioBuffer now b))
       \<and> inRange 0 1 (zcr (extractAudioFeatures b))
       \<and> inRange 0 1 (lowFreqRatio (extractAudioFeatures b))
       \<and> inRange 0 1 (highFreqRatio (extractAudioFeatures b))"
proof -
  let ?f = "extractAudioFeatures b"
  from assms have ne: "analysisData b \<noteq> []" by auto
  obtain v where v: "rmsVariance ?f = Fin v" "0 \<le> v"
    using rmsVariance_Fin [OF ne] by blast
  define z where "z = real (zeroCrossings (analysisData b)) / real (length (analysisData b))"
  have z: "zcr ?f = Fin z" unfolding z_def using ne by (rule zcr_Fin)
  have z0: "0 \<le> z" by (simp add: z_def)
  have z1: "z < 1" unfolding z_def using ne by (rule zcr_less_1)
  obtain c where c: "spectralCentroid ?f = Fin c" "0 \<le> c"
    using centroid_Fin [of "analysisData b"] by (auto simp: spectral_fields)
  obtain lo hi where lo: "lowFreqRatio ?f = Fin lo" "0 \<le> lo" "lo \<le> 1"
    and hi: "highFreqRatio ?f = Fin hi" "0 \<le> hi" "hi \<le> 1"
    using ratios_Fin [OF assms] by (auto simp: spectral_fields)
  note e = emotion_bounds [OF v(1) z c(1) hi(1) v(2) z0 c(2) hi(2), of now "Fin (ab_duration b)"]
  from e z z0 z1 lo hi show ?thesis
    by (simp add: analyzeAudioBuffer_def)
qed

text \<open>
  A \<^verbatim>\<open>NaN\<close> in \<open>highFreqRatio\<close> reaches the raw score \<open>angry\<close>, through it the total, and
  through the total every percentage and the conflict risk.
\<close>

lemma js_add_NaN_right: "js_add x NaN = NaN"
  by (cases x) simp_all

lemma js_div_NaN_right: "js_div x NaN = NaN"
  by (cases x) simp_all

lemma NaN_ratio_scores:
  assumes "highFreqRatio f = NaN"
  shows "emotions (calculateEmotion now f d) = \<lparr>calm = NaN, tense = NaN, angry = NaN, excited = NaN\<rparr>"
    and "conflictRisk (calculateEmotion now f d) = NaN"
proof -
  have a: "angry (rawScores f) = NaN"
    using assms by (simp add: rawScores_def js_add_NaN_right)
  then have t: "scoreTotal (rawScores f) = NaN"
    by (simp add: scoreTotal_def js_add_NaN_right)
  then have n: "normalizeScores (rawScores f) = \<lparr>calm = NaN, tense = NaN, angry = NaN, excited = NaN\<rparr>"
    by (simp add: normalizeScores_def normalizeScore_def Let_def js_div_NaN_right)
  then show "emotions (calculateEmotion now f d) = \<lparr>calm = NaN, tense = NaN, angry = NaN, excited = NaN\<rparr>"
    and "conflictRisk (calculateEmotion now f d) = NaN"
    by (simp_all add: calculateEmotion_def Let_def)
qed


section \<open>The claims\<close>

subsection \<open>C1: the energy ratios of a silent window\<close>

text \<open>
  Claim C1 says that a window whose total energy is 0 gets \<open>lowFreqRatio = 0\<close> and
  \<open>highFreqRatio = 0\<close> and that the division by the total energy never yields an
  undefined value. The code divides by \<^const>\<open>totalEnergy\<close> without a test: on one
  second of silence at 8000 Hz both ratios are \<^verbatim>\<open>NaN\<close>, the value of \<^verbatim>\<open>0/0\<close>. The
  centroid, computed a few lines below in the same function, has the guard
  \<^verbatim>\<open>sum > 0 ? ... : 0\<close>.
\<close>

theorem silence_ratios_NaN:
  "lowFreqRatio (extractAudioFeatures
      \<lparr>ab_duration = 1, ab_sampleRate = 8000, ab_channelData = replicate 8000 0\<rparr>) = NaN
   \<and> highFreqRatio (extractAudioFeatures
      \<lparr>ab_duration = 1, ab_sampleRate = 8000, ab_channelData = replicate 8000 0\<rparr>) = NaN"
proof -
  let ?b = "\<lparr>ab_duration = 1, ab_sampleRate = 8000, ab_channelData = replicate 8000 (0::real)\<rparr>"
  have "set (analysisData ?b) \<subseteq> set (ab_channelData ?b)" by (rule analysisData_subset)
  then have "\<forall>x\<in>set (analysisData ?b). x = 0" by auto
  then show ?thesis by (simp add: spectral_fields ratios_silent)
qed

subsection \<open>C2: no failure on an empty buffer\<close>

text \<open>
  Claim C2 says that the extraction fails exactly when the sample buffer is empty.
  Counterexample: on a buffer whose one channel has no samples the call does not
  fail; it returns a record whose \<open>rms\<close> is \<^verbatim>\<open>NaN\<close>.
\<close>

theorem extract_empty_counterexample:
  "\<not> (isl (extractOutcome \<lparr>wab_duration = 0, wab_sampleRate = 44100, wab_channels = [[]]\<rparr>)
        \<longleftrightarrow> wab_channels \<lparr>wab_duration = 0, wab_sampleRate = 44100, wab_channels = [[]]\<rparr> ! 0 = [])
   \<and> rms (projr (extractOutcome \<lparr>wab_duration = 0, wab_sampleRate = 44100, wab_channels = [[]]\<rparr>)) = NaN"
  by (simp add: extractOutcome_def getChannelData_def empty_window_features
      analysisData_def totalSamples_def analysisDuration_def maxDuration_def double_simps)

text \<open>
  Claim C2, amended: the extraction has no failure for an empty sample buffer. For
  every buffer with a first channel, as every decoded buffer has, it returns a
  feature record, whether that channel has samples or not; the record is computed
  from the first channel alone, and when the channel has no samples its \<open>rms\<close>,
  \<open>rmsVariance\<close> and \<open>zcr\<close> are \<^verbatim>\<open>NaN\<close>.
\<close>

theorem extract_never_fails:
  assumes "wab_channels ab = channelData # others"
  shows "\<exists>f. extractOutcome ab = Inr f
           \<and> extractOutcome (ab\<lparr>wab_channels := [channelData]\<rparr>) = Inr f
           \<and> (channelData = [] \<longrightarrow> rms f = NaN \<and> rmsVariance f = NaN \<and> zcr f = NaN)"
proof -
  let ?b = "\<lparr>ab_duration = wab_duration ab, ab_sampleRate = wab_sampleRate ab,
              ab_channelData = channelData\<rparr>"
  have r: "extractOutcome ab = Inr (extractAudioFeatures ?b)"
    and r1: "extractOutcome (ab\<lparr>wab_channels := [channelData]\<rparr>) = Inr (extractAudioFeatures ?b)"
    using assms by (simp_all add: extractOutcome_def getChannelData_def)
  have "analysisData ?b = []" if "channelData = []"
    using analysisData_subset [of ?b] that by simp
  then have "channelData = [] \<longrightarrow>
      rms (extractAudioFeatures ?b) = NaN \<and> rmsVariance (extractAudioFeatures ?b) = NaN
        \<and> zcr (extractAudioFeatures ?b) = NaN"
    by (simp add: empty_window_features)
  with r r1 show ?thesis by blast
qed

text \<open>The amended claim C2 at a buffer whose one channel has no samples.\<close>

theorem extract_never_fails_witness:
  "wab_channels \<lparr>wab_duration = 0, wab_sampleRate = 44100, wab_channels = [[]]\<rparr> = [] # []
   \<and> (\<exists>f. extractOutcome \<lparr>wab_duration = 0, wab_sampleRate = 44100, wab_channels = [[]]\<rparr> = Inr f
          \<and> rms f = NaN \<and> rmsVariance f = NaN \<and> zcr f = NaN)"
proof -
  have h: "wab_channels \<lparr>wab_duration = 0, wab_sampleRate = 44100, wab_channels = [[]]\<rparr> = [] # []"
    by simp
  from extract_never_fails [OF h] h show ?thesis by blast
qed

subsection \<open>C3: bounds of the scores and features\<close>

text \<open>
  Claim C3 says that for every input waveform the four percentages and the conflict
  risk lie in \<open>[0, 100]\<close> and \<open>zcr\<close> and the two energy ratios in \<open>[0, 1]\<close>. On one
  second of silence at 8000 Hz the code returns \<^verbatim>\<open>NaN\<close> for the two ratios, by the
  division of C1, and from there for the four percentages and the conflict risk;
  \<^verbatim>\<open>NaN\<close> lies in no interval.
\<close>

theorem silence_scores_NaN:
  "emotions (analyzeAudioBuffer ''t''
      \<lparr>ab_duration = 1, ab_sampleRate = 8000, ab_channelData = replicate 8000 0\<rparr>)
     = \<lparr>calm = NaN, tense = NaN, angry = NaN, excited = NaN\<rparr>
   \<and> conflictRisk (analyzeAudioBuffer ''t''
      \<lparr>ab_duration = 1, ab_sampleRate = 8000, ab_channelData = replicate 8000 0\<rparr>) = NaN
   \<and> lowFreqRatio (extractAudioFeatures
      \<lparr>ab_duration = 1, ab_sampleRate = 8000, ab_channelData = replicate 8000 0\<rparr>) = NaN
   \<and> highFreqRatio (extractAudioFeatures
      \<lparr>ab_duration = 1, ab_sampleRate = 8000, ab_channelData = replicate 8000 0\<rparr>) = NaN
   \<and> \<not> inRange 0 100 (calm (emotions (analyzeAudioBuffer ''t''
      \<lparr>ab_duration = 1, ab_sampleRate = 8000, ab_channelData = replicate 8000 0\<rparr>)))
   \<and> \<not> inRange 0 1 (lowFreqRatio (extractAudioFeatures
      \<lparr>ab_duration = 1, ab_sampleRate = 8000, ab_channelData = replicate 8000 0\<rparr>))"
proof -
  let ?b = "\<lparr>ab_duration = 1, ab_sampleRate = 8000, ab_channelData = replicate 8000 0\<rparr>"
  have "set (analysisData ?b) \<subseteq> set (ab_channelData ?b)" by (rule analysisData_subset)
  then have "\<forall>x\<in>set (analysisData ?b). x = 0" by auto
  then have r: "lowFreqRatio (extractAudioFeatures ?b) = NaN"
      "highFreqRatio (extractAudioFeatures ?b) = NaN"
    by (simp_all add: spectral_fields ratios_silent)
  note s = NaN_ratio_scores [OF r(2), of "''t''" "Fin (ab_duration ?b)"]
  from r s show ?thesis by (simp add: analyzeAudioBuffer_def)
qed

subsection \<open>C4: the analysis window\<close>

text \<open>
  Claim C4: the extraction analyses exactly the first
  \<open>n = min (len samples) \<lfloor>min duration 30 * sampleRate\<rfloor>\<close> samples, the product being the
  product of doubles: every feature is computed from that prefix and from \<open>n\<close>. For a
  waveform of 120 seconds at 44100 Hz the analysed duration is 30 and \<open>n\<close> is
  \<open>30 * 44100\<close>. Durations and sample rates are not negative (a negative end of a
  slice would count from the end of the array).
\<close>

theorem window_cap:
  assumes "0 \<le> ab_duration b" "0 \<le> ab_sampleRate b"
  shows "\<exists>n. Math_min (Fin (real (length (ab_channelData b))))
               (Math_floor (toDouble
                  (js_mul (Math_min (Fin (ab_duration b)) (Fin 30)) (Fin (ab_sampleRate b)))))
             = Fin (real n)
           \<and> analysisData b = take n (ab_channelData b)
           \<and> extractAudioFeatures b =
               (let window = take n (ab_channelData b);
                    rms' = Math_sqrt (js_div (sumSquares window) (Fin (real n)))
                in \<lparr> f_duration = Math_min (Fin (ab_duration b)) (Fin 30),
                     f_sampleRate = Fin (ab_sampleRate b),
                     rms = rms',
                     rmsVariance = calculateVariance window rms',
                     zcr = js_div (Fin (real (zeroCrossings window))) (Fin (real n)),
                     lowFreqRatio = sf_lowFreqRatio (calculateSpectralFeatures window),
                     highFreqRatio = sf_highFreqRatio (calculateSpectralFeatures window),
                     spectralCentroid = sf_spectralCentroid (calculateSpectralFeatures window) \<rparr>)
           \<and> (ab_duration b = 120 \<and> ab_sampleRate b = 44100
                \<and> 30 * 44100 \<le> length (ab_channelData b) \<longrightarrow>
              n = 30 * 44100 \<and> f_duration (extractAudioFeatures b) = Fin 30)"
proof -
  obtain n where m: "Math_min (Fin (real (length (ab_channelData b)))) (totalSamples b) = Fin (real n)"
    and le: "n \<le> length (ab_channelData b)"
    and w: "analysisData b = take n (ab_channelData b)"
    using analysisData_window [OF assms] by blast
  have len: "length (take n (ab_channelData b)) = n" using le by simp
  have 1: "Math_min (Fin (real (length (ab_channelData b))))
               (Math_floor (toDouble
                  (js_mul (Math_min (Fin (ab_duration b)) (Fin 30)) (Fin (ab_sampleRate b)))))
             = Fin (real n)"
    using m by (simp add: totalSamples_def analysisDuration_def maxDuration_def)
  have 2: "extractAudioFeatures b =
               (let window = take n (ab_channelData b);
                    rms' = Math_sqrt (js_div (sumSquares window) (Fin (real n)))
                in \<lparr> f_duration = Math_min (Fin (ab_duration b)) (Fin 30),
                     f_sampleRate = Fin (ab_sampleRate b),
                     rms = rms',
                     rmsVariance = calculateVariance window rms',
                     zcr = js_div (Fin (real (zeroCrossings window))) (Fin (real n)),
                     lowFreqRatio = sf_lowFreqRatio (calculateSpectralFeatures window),
                     highFreqRatio = sf_highFreqRatio (calculateSpectralFeatures window),
                     spectralCentroid = sf_spectralCentroid (calculateSpectralFeatures window) \<rparr>)"
    unfolding extractAudioFeatures_def Let_def w len
    by (simp add: analysisDuration_def maxDuration_def)
  have 3: "n = 30 * 44100 \<and> f_duration (extractAudioFeatures b) = Fin 30"
    if h: "ab_duration b = 120 \<and> ab_sampleRate b = 44100
                \<and> 30 * 44100 \<le> length (ab_channelData b)"
  proof
    from h have "totalSamples b = Fin 1323000"
      by (simp add: totalSamples_def analysisDuration_def maxDuration_def double_simps)
    with m have "Fin (min (real (length (ab_channelData b))) 1323000) = Fin (real n)"
      by simp
    moreover from h have "min (real (length (ab_channelData b))) 1323000 = 1323000"
      by (intro min_absorb2) simp
    ultimately have "real n = real (1323000::nat)" by simp
    then have "n = 1323000" by (simp only: of_nat_eq_iff)
    then show "n = 30 * 44100" by simp
    from h show "f_duration (extractAudioFeatures b) = Fin 30"
      by (simp add: extractAudioFeatures_def Let_def analysisDuration_def maxDuration_def)
  qed
  from 1 w 2 3 show ?thesis by blast
qed

text \<open>Claim C4 at 120 seconds of samples at 44100 Hz.\<close>

theorem window_cap_witness:
  "0 \<le> ab_duration
       \<lparr>ab_duration = 120, ab_sampleRate = 44100, ab_channelData = replicate 5292000 0\<rparr>
   \<and> 0 \<le> ab_sampleRate
       \<lparr>ab_duration = 120, ab_sampleRate = 44100, ab_channelData = replicate 5292000 0\<rparr>
   \<and> ab_duration
       \<lparr>ab_duration = 120, ab_sampleRate = 44100, ab_channelData = replicate 5292000 0\<rparr> = 120
   \<and> ab_sampleRate
       \<lparr>ab_duration = 120, ab_sampleRate = 44100, ab_channelData = replicate 5292000 0\<rparr> = 44100
   \<and> 30 * 44100 \<le> length (ab_channelData
       \<lparr>ab_duration = 120, ab_sampleRate = 44100, ab_channelData = replicate 5292000 0\<rparr>)
   \<and> length (analysisData
       \<lparr>ab_duration = 120, ab_sampleRate = 44100, ab_channelData = replicate 5292000 0\<rparr>) = 30 * 44100
   \<and> f_duration (extractAudioFeatures
       \<lparr>ab_duration = 120, ab_sampleRate = 44100, ab_channelData = replicate 5292000 0\<rparr>) = Fin 30"
proof -
  let ?b = "\<lparr>ab_duration = 120, ab_sampleRate = 44100, ab_channelData = replicate 5292000 0\<rparr>"
  have h: "0 \<le> ab_duration ?b" "0 \<le> ab_sampleRate ?b" by simp_all
  have i: "ab_duration ?b = 120 \<and> ab_sampleRate ?b = 44100
      \<and> 30 * 44100 \<le> length (ab_channelData ?b)" by simp
  from window_cap [OF h] obtain n where w: "analysisData ?b = take n (ab_channelData ?b)"
    and n: "ab_duration ?b = 120 \<and> ab_sampleRate ?b = 44100
                \<and> 30 * 44100 \<le> length (ab_channelData ?b) \<longrightarrow>
              n = 30 * 44100 \<and> f_duration (extractAudioFeatures ?b) = Fin 30"
    by blast
  from n i have n': "n = 30 * 44100" and d: "f_duration (extractAudioFeatures ?b) = Fin 30"
    by blast+
  from w n' have "length (analysisData ?b) = 30 * 44100" by simp
  with h i d show ?thesis by blast
qed

subsection \<open>C5: the zero-crossing rate of four alternating samples\<close>

text \<open>
  Claim C5 says that the samples \<open>1, -1, 1, -1\<close>, all of them in the window, give
  \<open>zcr = 1\<close>. Counterexample: the window is the whole buffer and \<open>zcr\<close> is not 1.
\<close>

theorem zcr_alternating_counterexample:
  "analysisData \<lparr>ab_duration = 1, ab_sampleRate = 4, ab_channelData = [1, -1, 1, -1]\<rparr> = [1, -1, 1, -1]
   \<and> zcr (extractAudioFeatures \<lparr>ab_duration = 1, ab_sampleRate = 4, ab_channelData = [1, -1, 1, -1]\<rparr>)
       \<noteq> Fin 1"
  by (simp add: extractAudioFeatures_def Let_def analysisData_def totalSamples_def
      analysisDuration_def maxDuration_def double_simps zeroCrossings_def)

text \<open>
  Claim C5, amended: \<open>zcr\<close> is the number of adjacent pairs of the window with a
  strictly negative product, divided by the number of samples of the window; for
  the samples \<open>1, -1, 1, -1\<close> it is \<open>3 / 4\<close>.
\<close>

theorem zcr_alternating:
  "zcr (extractAudioFeatures b) =
     js_div (Fin (real (length (filter (\<lambda>(x, y). x * y < 0)
                                  (zip (analysisData b) (tl (analysisData b)))))))
       (Fin (real (length (analysisData b))))
   \<and> zcr (extractAudioFeatures \<lparr>ab_duration = 1, ab_sampleRate = 4, ab_channelData = [1, -1, 1, -1]\<rparr>)
       = Fin (3 / 4)"
proof
  show "zcr (extractAudioFeatures b) =
     js_div (Fin (real (length (filter (\<lambda>(x, y). x * y < 0)
                                  (zip (analysisData b) (tl (analysisData b)))))))
       (Fin (real (length (analysisData b))))"
    by (simp add: extractAudioFeatures_def Let_def zeroCrossings_pairs)
  show "zcr (extractAudioFeatures \<lparr>ab_duration = 1, ab_sampleRate = 4, ab_channelData = [1, -1, 1, -1]\<rparr>)
       = Fin (3 / 4)"
    by (simp add: extractAudioFeatures_def Let_def analysisData_def totalSamples_def
      analysisDuration_def maxDuration_def double_simps zeroCrossings_def)
qed

subsection \<open>C6: the sum of the rounded percentages\<close>

text \<open>
  Claim C6: when the total of the raw scores is strictly positive, the sum of the
  four rounded percentages lies in \<open>[98, 102]\<close>; the percentages are not
  renormalised to sum to 100. For the second part: raw scores 0, 100, 100, 100
  give the percentages 0, 33, 33, 33, whose sum is 99.
\<close>

theorem percentages_sum_near_100:
  "(js_gt (scoreTotal (rawScores f)) (Fin 0) \<longrightarrow>
      inRange 98 102
        (js_add
           (js_add
              (js_add (calm (emotions (calculateEmotion now f d)))
                 (tense (emotions (calculateEmotion now f d))))
              (angry (emotions (calculateEmotion now f d))))
           (excited (emotions (calculateEmotion now f d)))))
   \<and> emotions (calculateEmotion ''t''
        \<lparr>f_duration = Fin 1, f_sampleRate = Fin 8000, rms = Fin (1 / 2), rmsVariance = Fin (1 / 4),
          zcr = Fin 0, lowFreqRatio = Fin 0, highFreqRatio = Fin 0, spectralCentroid = Fin 2\<rparr>
        (Fin 1))
      = \<lparr>calm = Fin 0, tense = Fin 33, angry = Fin 33, excited = Fin 33\<rparr>"
proof (intro conjI impI)
  assume "js_gt (scoreTotal (rawScores f)) (Fin 0)"
  then obtain c t a e where raw: "rawScores f = \<lparr>calm = Fin c, tense = Fin t, angry = Fin a, excited = Fin e\<rparr>"
    and pos: "0 < c + t + a + e"
    using total_pos_scores_Fin by blast
  define S where "S = c + t + a + e"
  from pos have S: "S \<noteq> 0" by (simp add: S_def)
  have norm: "normalizeScores (rawScores f) =
      \<lparr> calm = Fin (of_int (round (c / S * 100))), tense = Fin (of_int (round (t / S * 100))),
        angry = Fin (of_int (round (a / S * 100))), excited = Fin (of_int (round (e / S * 100))) \<rparr>"
    unfolding raw S_def using S by (intro normalizeScores_Fin) (simp add: S_def)
  have "c / S * 100 + t / S * 100 + a / S * 100 + e / S * 100 = (c + t + a + e) / S * 100"
    by (simp add: add_divide_distrib distrib_right)
  also have "\<dots> = 100" using S by (simp add: S_def)
  finally have hundred: "c / S * 100 + t / S * 100 + a / S * 100 + e / S * 100 = 100" .
  note r = round_sum4 [OF hundred]
  have em: "emotions (calculateEmotion now f d) = normalizeScores (rawScores f)"
    by (simp add: calculateEmotion_def Let_def)
  have "98 \<le> real_of_int (round (c / S * 100) + round (t / S * 100) + round (a / S * 100) + round (e / S * 100))"
    and "real_of_int (round (c / S * 100) + round (t / S * 100) + round (a / S * 100) + round (e / S * 100)) \<le> 102"
    using r by linarith+
  then show "inRange 98 102
        (js_add
           (js_add
              (js_add (calm (emotions (calculateEmotion now f d)))
                 (tense (emotions (calculateEmotion now f d))))
              (angry (emotions (calculateEmotion now f d))))
           (excited (emotions (calculateEmotion now f d))))"
    by (simp add: em norm)
next
  have *: "round (100 / 3 :: real) = 33" by (simp add: round_def)
  show "emotions (calculateEmotion ''t''
        \<lparr>f_duration = Fin 1, f_sampleRate = Fin 8000, rms = Fin (1 / 2), rmsVariance = Fin (1 / 4),
          zcr = Fin 0, lowFreqRatio = Fin 0, highFreqRatio = Fin 0, spectralCentroid = Fin 2\<rparr>
        (Fin 1))
      = \<lparr>calm = Fin 0, tense = Fin 33, angry = Fin 33, excited = Fin 33\<rparr>"
    by (simp add: calculateEmotion_def Let_def normalizeScores_def normalizeScore_def scoreTotal_def
        rawScores_def js_sub_def *)
qed

text \<open>Claim C6 at features with raw scores 0, 100, 100, 100.\<close>

theorem percentages_sum_near_100_witness:
  "js_gt (scoreTotal (rawScores
        \<lparr>f_duration = Fin 1, f_sampleRate = Fin 8000, rms = Fin (1 / 2), rmsVariance = Fin (1 / 4),
          zcr = Fin 0, lowFreqRatio = Fin 0, highFreqRatio = Fin 0, spectralCentroid = Fin 2\<rparr>)) (Fin 0)
   \<and> inRange 98 102
        (js_add
           (js_add
              (js_add (calm (emotions (calculateEmotion ''t''
        \<lparr>f_duration = Fin 1, f_sampleRate = Fin 8000, rms = Fin (1 / 2), rmsVariance = Fin (1 / 4),
          zcr = Fin 0, lowFreqRatio = Fin 0, highFreqRatio = Fin 0, spectralCentroid = Fin 2\<rparr> (Fin 1))))
                 (tense (emotions (calculateEmotion ''t''
        \<lparr>f_duration = Fin 1, f_sampleRate = Fin 8000, rms = Fin (1 / 2), rmsVariance = Fin (1 / 4),
          zcr = Fin 0, lowFreqRatio = Fin 0, highFreqRatio = Fin 0, spectralCentroid = Fin 2\<rparr> (Fin 1)))))
              (angry (emotions (calculateEmotion ''t''
        \<lparr>f_duration = Fin 1, f_sampleRate = Fin 8000, rms = Fin (1 / 2), rmsVariance = Fin (1 / 4),
          zcr = Fin 0, lowFreqRatio = Fin 0, highFreqRatio = Fin 0, spectralCentroid = Fin 2\<rparr> (Fin 1)))))
           (excited (emotions (calculateEmotion ''t''
        \<lparr>f_duration = Fin 1, f_sampleRate = Fin 8000, rms = Fin (1 / 2), rmsVariance = Fin (1 / 4),
          zcr = Fin 0, lowFreqRatio = Fin 0, highFreqRatio = Fin 0, spectralCentroid = Fin 2\<rparr> (Fin 1)))))"
proof -
  have h: "js_gt (scoreTotal (rawScores
        \<lparr>f_duration = Fin 1, f_sampleRate = Fin 8000, rms = Fin (1 / 2), rmsVariance = Fin (1 / 4),
          zcr = Fin 0, lowFreqRatio = Fin 0, highFreqRatio = Fin 0, spectralCentroid = Fin 2\<rparr>)) (Fin 0)"
    by (simp add: scoreTotal_def rawScores_def js_sub_def js_gt_def)
  from percentages_sum_near_100 [of _ "''t''" "Fin 1"] h show ?thesis by blast
qed

subsection \<open>C7: the conflict risk\<close>

text \<open>
  Claim C7: the conflict risk is \<open>min 100 (round (tense * 0.4 + angry * 0.6 + excited * 0.2))\<close>
  where \<open>tense\<close>, \<open>angry\<close>, \<open>excited\<close> are the normalised, rounded percentages
  \<open>round (score / total * 100)\<close> returned as the emotions, not the raw scores. The code
  rounds the minimum instead of taking the minimum of the rounded sum; the two agree
  since 100 is an integer. For features with the raw scores 0, 100, 100, 100 the risk
  is 40, computed from the percentages 33, 33, 33; the raw scores would give 100.
\<close>

theorem conflictRisk_formula:
  "(let total' = scoreTotal (rawScores f);
        percent = (\<lambda>score. Math_round (js_mul (js_div score total') (Fin 100)));
        tense' = percent (tense (rawScores f));
        angry' = percent (angry (rawScores f));
        excited' = percent (excited (rawScores f))
    in conflictRisk (calculateEmotion now f d) =
         Math_min (Fin 100)
           (Math_round
              (js_add
                 (js_add (js_mul tense' (Fin (4 / 10))) (js_mul angry' (Fin (6 / 10))))
                 (js_mul excited' (Fin (2 / 10)))))
       \<and> emotions (calculateEmotion now f d) =
           \<lparr>calm = percent (calm (rawScores f)), tense = tense', angry = angry',
             excited = excited'\<rparr>)
   \<and> conflictRisk (calculateEmotion ''t''
        \<lparr>f_duration = Fin 1, f_sampleRate = Fin 8000, rms = Fin (1 / 2), rmsVariance = Fin (1 / 4),
          zcr = Fin 0, lowFreqRatio = Fin 0, highFreqRatio = Fin 0, spectralCentroid = Fin 2\<rparr>
        (Fin 1)) = Fin 40
   \<and> rawScores
        \<lparr>f_duration = Fin 1, f_sampleRate = Fin 8000, rms = Fin (1 / 2), rmsVariance = Fin (1 / 4),
          zcr = Fin 0, lowFreqRatio = Fin 0, highFreqRatio = Fin 0, spectralCentroid = Fin 2\<rparr>
      = \<lparr>calm = Fin 0, tense = Fin 100, angry = Fin 100, excited = Fin 100\<rparr>"
proof (intro conjI)
  show "let total' = scoreTotal (rawScores f);
        percent = (\<lambda>score. Math_round (js_mul (js_div score total') (Fin 100)));
        tense' = percent (tense (rawScores f));
        angry' = percent (angry (rawScores f));
        excited' = percent (excited (rawScores f))
    in conflictRisk (calculateEmotion now f d) =
         Math_min (Fin 100)
           (Math_round
              (js_add
                 (js_add (js_mul tense' (Fin (4 / 10))) (js_mul angry' (Fin (6 / 10))))
                 (js_mul excited' (Fin (2 / 10)))))
       \<and> emotions (calculateEmotion now f d) =
           \<lparr>calm = percent (calm (rawScores f)), tense = tense', angry = angry',
             excited = excited'\<rparr>"
    by (simp add: calculateEmotion_def Let_def normalizeScores_def normalizeScore_def
        Math_round_min_100)
next
  have *: "round (100 / 3 :: real) = 33" "round (198 / 5 :: real) = 40"
    by (simp_all add: round_def)
  show "conflictRisk (calculateEmotion ''t''
        \<lparr>f_duration = Fin 1, f_sampleRate = Fin 8000, rms = Fin (1 / 2), rmsVariance = Fin (1 / 4),
          zcr = Fin 0, lowFreqRatio = Fin 0, highFreqRatio = Fin 0, spectralCentroid = Fin 2\<rparr>
        (Fin 1)) = Fin 40"
    by (simp add: calculateEmotion_def Let_def normalizeScores_def normalizeScore_def
        scoreTotal_def rawScores_def js_sub_def *)
next
  show "rawScores
        \<lparr>f_duration = Fin 1, f_sampleRate = Fin 8000, rms = Fin (1 / 2), rmsVariance = Fin (1 / 4),
          zcr = Fin 0, lowFreqRatio = Fin 0, highFreqRatio = Fin 0, spectralCentroid = Fin 2\<rparr>
      = \<lparr>calm = Fin 0, tense = Fin 100, angry = Fin 100, excited = Fin 100\<rparr>"
    by (simp add: rawScores_def js_sub_def)
qed

subsection \<open>C9: the total of the raw scores is positive\<close>

text \<open>
  Claim C9: for finite, non-negative features the total of the raw scores is strictly
  positive; if \<open>calm = 0\<close> then \<open>rmsVariance * 1000 + zcr * 500 \<ge> 100\<close> and so
  \<open>tense \<ge> 60\<close>. Only the four fields read by the raw scores need the hypothesis.
\<close>

theorem total_positive:
  assumes "rmsVariance f = Fin v" "zcr f = Fin z" "spectralCentroid f = Fin c" "highFreqRatio f = Fin h"
    and "0 \<le> v" "0 \<le> z" "0 \<le> c" "0 \<le> h"
  shows "js_gt (scoreTotal (rawScores f)) (Fin 0)
       \<and> (calm (rawScores f) = Fin 0 \<longrightarrow>
            100 \<le> v * 1000 + z * 500 \<and> (\<exists>t. tense (rawScores f) = Fin t \<and> 60 \<le> t))"
proof -
  note raw = rawScores_Fin [OF assms(1-4)]
  have "0 < max 0 (100 - v * 1000 - z * 500) + min 100 (z * 800 + v * 600)
             + min 100 (c * 50 + h * 200) + min 100 ((v + z) * 400)"
    using assms(5-8) by (rule total_pos_nonneg)
  then have pos: "js_gt (scoreTotal (rawScores f)) (Fin 0)"
    by (simp add: raw scoreTotal_def js_gt_def)
  have "100 \<le> v * 1000 + z * 500 \<and> 60 \<le> min 100 (z * 800 + v * 600)"
    if "max 0 (100 - v * 1000 - z * 500) = 0"
    using that assms(5-8) by (simp add: max_def min_def split: if_splits)
  then have "calm (rawScores f) = Fin 0 \<longrightarrow>
            100 \<le> v * 1000 + z * 500 \<and> (\<exists>t. tense (rawScores f) = Fin t \<and> 60 \<le> t)"
    by (simp add: raw)
  with pos show ?thesis by blast
qed

text \<open>Claim C9 at features whose raw score \<open>calm\<close> is 0.\<close>

theorem total_positive_witness:
  "js_gt (scoreTotal (rawScores
      \<lparr>f_duration = Fin 1, f_sampleRate = Fin 8000, rms = Fin (1 / 2), rmsVariance = Fin (1 / 4),
        zcr = Fin 0, lowFreqRatio = Fin 0, highFreqRatio = Fin 0, spectralCentroid = Fin 2\<rparr>)) (Fin 0)
   \<and> calm (rawScores
      \<lparr>f_duration = Fin 1, f_sampleRate = Fin 8000, rms = Fin (1 / 2), rmsVariance = Fin (1 / 4),
        zcr = Fin 0, lowFreqRatio = Fin 0, highFreqRatio = Fin 0, spectralCentroid = Fin 2\<rparr>) = Fin 0
   \<and> (100::real) \<le> 1 / 4 * 1000 + 0 * 500
   \<and> (\<exists>t. tense (rawScores
      \<lparr>f_duration = Fin 1, f_sampleRate = Fin 8000, rms = Fin (1 / 2), rmsVariance = Fin (1 / 4),
        zcr = Fin 0, lowFreqRatio = Fin 0, highFreqRatio = Fin 0, spectralCentroid = Fin 2\<rparr>) = Fin t
      \<and> 60 \<le> t)"
proof -
  let ?f = "\<lparr>f_duration = Fin 1, f_sampleRate = Fin 8000, rms = Fin (1 / 2), rmsVariance = Fin (1 / 4),
        zcr = Fin 0, lowFreqRatio = Fin 0, highFreqRatio = Fin 0, spectralCentroid = Fin 2\<rparr>"
  have c: "calm (rawScores ?f) = Fin 0" by (simp add: rawScores_def js_sub_def)
  have "rmsVariance ?f = Fin (1 / 4)" "zcr ?f = Fin 0" "spectralCentroid ?f = Fin 2"
    "highFreqRatio ?f = Fin 0" "(0::real) \<le> 1 / 4" "(0::real) \<le> 0" "(0::real) \<le> 2" "(0::real) \<le> 0"
    by simp_all
  from total_positive [OF this] c show ?thesis by blast
qed

subsection \<open>C10: the zero-crossing rate is below 1\<close>

text \<open>
  Claim C10: a non-empty window of \<open>n\<close> samples has at most \<open>n - 1\<close> zero crossings, so
  its \<open>zcr\<close> is strictly less than 1; no input gives \<open>zcr = 1\<close>.
\<close>

theorem zcr_below_1:
  "(analysisData b \<noteq> [] \<longrightarrow>
      zeroCrossings (analysisData b) \<le> length (analysisData b) - 1
      \<and> (\<exists>z. zcr (extractAudioFeatures b) = Fin z \<and> 0 \<le> z \<and> z < 1))
   \<and> zcr (extractAudioFeatures b) \<noteq> Fin 1"
proof -
  have a: "zeroCrossings (analysisData b) \<le> length (analysisData b) - 1"
    by (rule zeroCrossings_le)
  have b: "\<exists>z. zcr (extractAudioFeatures b) = Fin z \<and> 0 \<le> z \<and> z < 1" if "analysisData b \<noteq> []"
    using zcr_Fin [OF that] zcr_less_1 [OF that] by simp
  have c: "zcr (extractAudioFeatures b) \<noteq> Fin 1"
  proof (cases "analysisData b = []")
    case True
    then show ?thesis by (simp add: empty_window_features)
  next
    case False
    from b [OF False] show ?thesis by auto
  qed
  from a b c show ?thesis by blast
qed

text \<open>Claim C10 at the four alternating samples.\<close>

theorem zcr_below_1_witness:
  "analysisData \<lparr>ab_duration = 1, ab_sampleRate = 4, ab_channelData = [1, -1, 1, -1]\<rparr> \<noteq> []
   \<and> zeroCrossings (analysisData \<lparr>ab_duration = 1, ab_sampleRate = 4, ab_channelData = [1, -1, 1, -1]\<rparr>)
       \<le> length (analysisData \<lparr>ab_duration = 1, ab_sampleRate = 4, ab_channelData = [1, -1, 1, -1]\<rparr>) - 1
   \<and> (\<exists>z. zcr (extractAudioFeatures \<lparr>ab_duration = 1, ab_sampleRate = 4, ab_channelData = [1, -1, 1, -1]\<rparr>) = Fin z
        \<and> 0 \<le> z \<and> z < 1)"
proof -
  have h: "analysisData \<lparr>ab_duration = 1, ab_sampleRate = 4, ab_channelData = [1, -1, 1, -1]\<rparr> \<noteq> []"
    by (simp add: analysisData_def totalSamples_def analysisDuration_def maxDuration_def double_simps)
  from zcr_below_1 [of "\<lparr>ab_duration = 1, ab_sampleRate = 4, ab_channelData = [1, -1, 1, -1]\<rparr>"] h
  show ?thesis by blast
qed

end
